theory Spec2Isabelle
  imports Main
begin

section \<open>Python text\<close>

text \<open>
  A Python \<open>str\<close> is a sequence of Unicode code points, so it is modelled as a list of
  code-point numbers. The source file has many non-ASCII literals (Chinese headings and
  emoji); they are written here by their code points, and the ASCII stretches through
  \<open>u\<close>, which maps an Isabelle string to its code points.
\<close>

type_synonym pystr = "nat list"

definition u :: "string \<Rightarrow> pystr" where
  "u s = map of_char s"

text \<open>\<open>str(n)\<close> of a Python integer: decimal digits, with a minus sign when negative.\<close>

fun str_nat :: "nat \<Rightarrow> pystr" where
  "str_nat n = (if n < 10 then [48 + n] else str_nat (n div 10) @ [48 + n mod 10])"

declare str_nat.simps [simp del]

definition str_int :: "int \<Rightarrow> pystr" where
  "str_int i = (if i < 0 then 45 # str_nat (nat (- i)) else str_nat (nat i))"

text \<open>
  \<open>str.isspace\<close> for one code point: the ASCII white space of CPython
  (U+0009..U+000D, U+001C..U+001F, U+0020) and the Unicode white space beyond it.
\<close>

definition isspace :: "nat \<Rightarrow> bool" where
  "isspace c =
     ((0x09 \<le> c \<and> c \<le> 0x0D) \<or> (0x1C \<le> c \<and> c \<le> 0x20) \<or> c = 0x85 \<or> c = 0xA0
      \<or> c = 0x1680 \<or> (0x2000 \<le> c \<and> c \<le> 0x200A) \<or> c = 0x2028 \<or> c = 0x2029
      \<or> c = 0x202F \<or> c = 0x205F \<or> c = 0x3000)"

text \<open>\<open>s.strip()\<close>: drop the white space at both ends.\<close>

definition strip :: "pystr \<Rightarrow> pystr" where
  "strip s = rev (dropWhile isspace (rev (dropWhile isspace s)))"

section \<open>Exceptions\<close>

text \<open>
  The exception classes the script names or can meet, with the part of Python's class
  hierarchy that decides which \<open>except\<close> clause catches which exception.
\<close>

datatype exn_class =
    Exception
  | OSError
  | FileNotFoundError
  | TimeoutError
  | SubprocessError
  | CalledProcessError
  | TimeoutExpired
  | ImportError
  | ModuleNotFoundError
  | ValueError
  | JSONDecodeError
  | UnicodeError
  | UnicodeEncodeError
  | AttributeError

text \<open>The class itself followed by its base classes, up to \<open>Exception\<close>.\<close>

fun mro :: "exn_class \<Rightarrow> exn_class list" where
  "mro Exception = [Exception]"
| "mro OSError = [OSError, Exception]"
| "mro FileNotFoundError = [FileNotFoundError, OSError, Exception]"
| "mro TimeoutError = [TimeoutError, OSError, Exception]"
| "mro SubprocessError = [SubprocessError, Exception]"
| "mro CalledProcessError = [CalledProcessError, SubprocessError, Exception]"
| "mro TimeoutExpired = [TimeoutExpired, SubprocessError, Exception]"
| "mro ImportError = [ImportError, Exception]"
| "mro ModuleNotFoundError = [ModuleNotFoundError, ImportError, Exception]"
| "mro ValueError = [ValueError, Exception]"
| "mro JSONDecodeError = [JSONDecodeError, ValueError, Exception]"
| "mro UnicodeError = [UnicodeError, ValueError, Exception]"
| "mro UnicodeEncodeError = [UnicodeEncodeError, UnicodeError, ValueError, Exception]"
| "mro AttributeError = [AttributeError, Exception]"

text \<open>An exception value: its class and the text \<open>str(e)\<close> gives.\<close>

datatype exn = Exn (exn_type: exn_class) (exn_str: pystr)

definition isinstance :: "exn \<Rightarrow> exn_class \<Rightarrow> bool" where
  "isinstance e c = List.member (mro (exn_type e)) c"

section \<open>The environment of one run\<close>

text \<open>
  What \<open>subprocess.run(['node', '-v'], capture_output=True, text=True, timeout=5)\<close>
  can meet: the process ran to its end with some return code and captured standard
  output, there is no \<open>node\<close> executable, or the five seconds ran out.
\<close>

datatype probe_outcome =
    Exited int pystr
  | BinaryMissing
  | TimedOut

text \<open>The three fields of \<open>psutil.virtual_memory()\<close> the script reads, in bytes.\<close>

record svmem =
  vm_total :: int
  vm_available :: int
  vm_used :: int

text \<open>
  Everything the script reads from outside its input: whether \<open>psutil\<close> can be
  imported, \<open>platform.system().lower()\<close>, \<open>platform.architecture()[0]\<close>, the
  outcome of the version probe, the memory reading, the text
  \<open>datetime.datetime.now().strftime('%Y-%m-%d %A')\<close>, and the encoding of standard
  output: which code points it can encode, and the text of the \<open>UnicodeEncodeError\<close>
  that writing a text it cannot encode raises.
\<close>

record env =
  psutil_installed :: bool
  platform_system_lower :: pystr
  platform_architecture :: pystr
  node_probe :: probe_outcome
  virtual_memory :: svmem
  now_strftime :: pystr
  stdout_encodes :: "nat \<Rightarrow> bool"
  stdout_encode_error :: "pystr \<Rightarrow> pystr"

text \<open>
  The input mapping: a dictionary from keys to lists of strings, as the script's
  two recognised keys hold. Other keys may be present; they are never looked up.
\<close>

type_synonym args = "pystr \<rightharpoonup> pystr list"

text \<open>\<open>d.get(key, default)\<close>.\<close>

definition dict_get :: "args \<Rightarrow> pystr \<Rightarrow> pystr list \<Rightarrow> pystr list" where
  "dict_get d k dflt = (case d k of None \<Rightarrow> dflt | Some v \<Rightarrow> v)"

section \<open>The version probe (lines 11 to 14)\<close>

text \<open>
  \<open>subprocess.run\<close> is called without \<open>check=True\<close>, so a non-zero return code is
  returned in the completed process and nothing is raised for it. A missing executable
  raises \<open>FileNotFoundError\<close>; an expired time limit raises
  \<open>subprocess.TimeoutExpired\<close>, whose text is built from the command and the limit.
\<close>

definition subprocess_run :: "probe_outcome \<Rightarrow> exn + int \<times> pystr" where
  "subprocess_run p =
     (case p of
        Exited returncode out \<Rightarrow> Inr (returncode, out)
      | BinaryMissing \<Rightarrow>
          Inl (Exn FileNotFoundError
                 (u ''[Errno 2] No such file or directory: '' @ [39] @ u ''node'' @ [39]))
      | TimedOut \<Rightarrow>
          Inl (Exn TimeoutExpired
                 (u ''Command '' @ [39] @ u ''['' @ [39] @ u ''node'' @ [39] @ u '', ''
                  @ [39] @ u ''-v'' @ [39] @ u '']'' @ [39] @ u '' timed out after 5 seconds'')))"

text \<open>The sentinel of line 14 (three Chinese characters, "not installed").\<close>

definition not_installed :: pystr where
  "not_installed = [0x672A, 0x5B89, 0x88C5]"

text \<open>
  The \<open>try\<close> of lines 11 to 14: the stripped standard output on a normal return; the
  sentinel when the raised exception is an instance of one of the three classes the
  \<open>except\<close> clause names; any other exception leaves the statement.
\<close>

definition probe_node_version :: "probe_outcome \<Rightarrow> exn + pystr" where
  "probe_node_version p =
     (case subprocess_run p of
        Inr (returncode, out) \<Rightarrow> Inr (strip out)
      | Inl e \<Rightarrow>
          if isinstance e CalledProcessError \<or> isinstance e FileNotFoundError
             \<or> isinstance e TimeoutError
          then Inr not_installed
          else Inl e)"

section \<open>The memory line (lines 17 to 21)\<close>

definition used_mb :: "svmem \<Rightarrow> int" where
  "used_mb vm = vm_used vm div (1024 * 1024)"

definition total_mb :: "svmem \<Rightarrow> int" where
  "total_mb vm = vm_total vm div (1024 * 1024)"

definition free_mb :: "svmem \<Rightarrow> int" where
  "free_mb vm = vm_available vm div (1024 * 1024)"

definition memory_status :: "svmem \<Rightarrow> pystr" where
  "memory_status vm =
     [0x5DF2, 0x7528] @ str_int (used_mb vm) @ u ''MB / '' @ [0x603B] @ str_int (total_mb vm)
     @ u ''MB ('' @ [0x5269, 0x4F59] @ str_int (free_mb vm) @ u ''MB)''"

section \<open>The report (lines 26 to 74)\<close>

text \<open>The fixed texts of the template, each with the source lines it comes from.\<close>

definition title_block :: pystr where \<comment> \<open>line 27\<close>
  "title_block =
     u ''# '' @ [0x1F916] @ u '' WuXing-Agent '' @ [0x81EA, 0x6211, 0x72B6, 0x6001, 0x62A5, 0x544A, 10, 10]"

definition env_heading :: pystr where \<comment> \<open>line 28\<close>
  "env_heading = u ''## '' @ [0x1F4CA] @ u '' '' @ [0x5B9E, 0x65F6, 0x8FD0, 0x884C, 0x73AF, 0x5883, 10]"

definition platform_label :: pystr where \<comment> \<open>line 29\<close>
  "platform_label = u ''- **'' @ [0x7CFB, 0x7EDF, 0x5E73, 0x53F0] @ u ''**: ''"

definition node_label :: pystr where \<comment> \<open>line 30\<close>
  "node_label = u ''- **Node.js'' @ [0x7248, 0x672C] @ u ''**: ''"

definition memory_label :: pystr where \<comment> \<open>line 31\<close>
  "memory_label = u ''- **'' @ [0x5185, 0x5B58, 0x72B6, 0x6001] @ u ''**: ''"

definition time_label :: pystr where \<comment> \<open>line 32\<close>
  "time_label = u ''- **'' @ [0x5F53, 0x524D, 0x65F6, 0x95F4] @ u ''**: ''"

definition capabilities_block :: pystr where \<comment> \<open>lines 34 to 40\<close>
  "capabilities_block =
     u ''## '' @ [0x1F6E0, 0xFE0F] @ u '' '' @ [0x6838, 0x5FC3, 0x80FD, 0x529B, 10]
     @ [0x4F5C, 0x4E3A, 0x5177, 0x5907, 0x4E94, 0x884C, 0x81EA, 0x8FDB, 0x5316, 0x80FD, 0x529B,
        0x7684, 0x7F16, 0x7A0B, 0x4E13, 0x5BB6, 0xFF0C, 0x6211, 0x53EF, 0x4EE5, 0xFF1A, 10]
     @ u ''1. **'' @ [0x6587, 0x4EF6, 0x64CD, 0x4F5C] @ u ''**: ''
     @ [0x8BFB, 0x53D6, 0x9879, 0x76EE, 0x6587, 0x4EF6, 0x3001, 0x5199, 0x5165, 0x5B89, 0x5168,
        0x9694, 0x79BB, 0x7684] @ u ''workspace'' @ [0x76EE, 0x5F55, 10]
     @ u ''2. **'' @ [0x4EE3, 0x7801, 0x6267, 0x884C] @ u ''**: '' @ [0x8FD0, 0x884C] @ u ''Node.js''
     @ [0x4EE3, 0x7801, 0x5E76, 0x63D0, 0x4F9B, 0x6D4B, 0x8BD5, 0x9A8C, 0x8BC1, 10]
     @ u ''3. **'' @ [0x6280, 0x80FD, 0x5185, 0x5316] @ u ''**: ''
     @ [0x5C06, 0x901A, 0x8FC7, 0x6D4B, 0x8BD5, 0x7684, 0x4EE3, 0x7801, 0x8F6C, 0x5316, 0x4E3A,
        0x6C38, 0x4E45, 0x6280, 0x80FD, 0x5361, 10]
     @ u ''4. **'' @ [0x4F9D, 0x8D56, 0x7BA1, 0x7406] @ u ''**: '' @ [0x6309, 0x9700, 0x5B89, 0x88C5]
     @ u ''npm'' @ [0x5305, 10]
     @ u ''5. **'' @ [0x5916, 0x90E8, 0x534F, 0x4F5C] @ u ''**: ''
     @ [0x8C03, 0x7528, 0x5916, 0x90E8, 0x4E13, 0x5BB6, 0x4EE3, 0x7406, 0xFF08] @ u ''codex/claude''
     @ [0xFF09, 10, 10]"

definition workflow_block :: pystr where \<comment> \<open>lines 42 to 49\<close>
  "workflow_block =
     u ''## '' @ [0x1F4CB] @ u '' '' @ [0x6807, 0x51C6, 0x5DE5, 0x4F5C, 0x6D41, 10]
     @ u ''```mermaid'' @ [10]
     @ u ''graph LR'' @ [10]
     @ u ''A['' @ [0x63A2, 0x8DEF] @ u ''<br>list_dir/read_file] --> B['' @ [0x7F16, 0x7801]
     @ u ''<br>write_file]'' @ [10]
     @ u ''B --> C['' @ [0x9A8C, 0x8BC1] @ u ''<br>test_runner]'' @ [10]
     @ u ''C -->|'' @ [0x5931, 0x8D25] @ u ''| B'' @ [10]
     @ u ''C -->|'' @ [0x6210, 0x529F] @ u ''| D['' @ [0x5185, 0x5316] @ u ''<br>incorporate_skill]'' @ [10]
     @ u ''```'' @ [10, 10]"

definition files_heading :: pystr where \<comment> \<open>line 51\<close>
  "files_heading =
     u ''## '' @ [0x1F4C2] @ u '' '' @ [0x5F53, 0x524D, 0x5DE5, 0x4F5C, 0x533A, 0x6587, 0x4EF6, 10]"

definition none_line :: pystr where \<comment> \<open>lines 56 and 70: the placeholder bullet\<close>
  "none_line = u ''- '' @ [0x65E0, 10]"

definition experience_block :: pystr where \<comment> \<open>lines 59 to 63\<close>
  "experience_block =
     u ''## '' @ [0x1F9E0] @ u '' '' @ [0x5386, 0x53F2, 0x7ECF, 0x9A8C, 0x5E93, 10]
     @ u ''1. ''
     @ [0x5F53, 0x65E0, 0x6CD5, 0x76F4, 0x63A5, 0x83B7, 0x53D6, 0x7279, 0x5B9A, 0x7248, 0x672C,
        0x53D1, 0x5E03, 0x4FE1, 0x606F, 0x65F6, 0xFF0C, 0x5E94, 0x63D0, 0x4F9B, 0x6743, 0x5A01,
        0x5B98, 0x65B9, 0x6E20, 0x9053, 0x4F5C, 0x4E3A, 0x66FF, 0x4EE3, 0x65B9, 0x6848, 10]
     @ u ''2. ''
     @ [0x5F53, 0x9700, 0x5B8C, 0x6210, 0x7F16, 0x7A0B, 0x5168, 0x751F, 0x547D, 0x5468, 0x671F,
        0x4EFB, 0x52A1, 0x65F6, 0xFF0C, 0x5E94, 0x9075, 0x5FAA, 0x63A2, 0x8DEF, 0x2192, 0x7F16,
        0x7801, 0x2192, 0x9A8C, 0x8BC1, 0x2192, 0x5185, 0x5316, 0x95ED, 0x73AF, 10]
     @ u ''3. '' @ [0x5F53] @ u ''Node.js'' @ [0x9879, 0x76EE, 0x542F, 0x7528] @ u ''ES Module''
     @ [0x65F6, 0xFF0C, 0x5E94, 0x9075, 0x5FAA, 0x5BF9, 0x5E94, 0x8BED, 0x6CD5, 0x3001, 0x8DEF,
        0x5F84, 0x5904, 0x7406, 0x53CA, 0x914D, 0x7F6E, 0x89C4, 0x5219, 10]
     @ u ''4. ''
     @ [0x5F53, 0x4EE3, 0x7406, 0x914D, 0x7F6E, 0x4E0E, 0x5DE5, 0x5177, 0x8FD0, 0x884C, 0x903B,
        0x8F91, 0x4E0D, 0x5339, 0x914D, 0x65F6, 0xFF0C, 0x5E94, 0x5BF9, 0x9F50, 0x6807, 0x51C6,
        0x6A21, 0x5F0F, 0x5E76, 0x8865, 0x5145, 0x5FC5, 0x8981, 0x914D, 0x7F6E, 0x9879, 10, 10]"

definition tasks_heading :: pystr where \<comment> \<open>line 65\<close>
  "tasks_heading = u ''## '' @ [0x1F3AF] @ u '' '' @ [0x5F85, 0x529E, 0x4E8B, 0x9879, 10]"

definition footer :: pystr where \<comment> \<open>line 72\<close>
  "footer =
     [10] @ u ''---''
     @ [10, 0x968F, 0x65F6, 0x53EF, 0x4EE5, 0x5411, 0x6211, 0x63D0, 0x51FA, 0x7F16, 0x7A0B, 0x9700, 0x6C42]"

text \<open>The two loops, each appending one bullet per element to the report so far.\<close>

fun add_file_bullets :: "pystr \<Rightarrow> pystr list \<Rightarrow> pystr" where \<comment> \<open>lines 53 and 54\<close>
  "add_file_bullets report [] = report"
| "add_file_bullets report (file # rest) =
     add_file_bullets (report @ u ''- `'' @ file @ u ''`'' @ [10]) rest"

fun add_task_bullets :: "pystr \<Rightarrow> pystr list \<Rightarrow> pystr" where \<comment> \<open>lines 67 and 68\<close>
  "add_task_bullets report [] = report"
| "add_task_bullets report (task # rest) =
     add_task_bullets (report @ u ''- '' @ task @ [10]) rest"

text \<open>
  Lines 7 to 74 of \<open>handler\<close>, statement by statement, for the two lists that lines 4
  and 5 have read from the input. The only statement that can raise in this model is the
  version probe; its exception, when the \<open>except\<close> clause does not catch it, is the
  result of the call.
\<close>

definition build_report :: "env \<Rightarrow> pystr list \<Rightarrow> pystr list \<Rightarrow> exn + pystr" where
  "build_report e current_workspace_files pending_tasks =
     (let system_platform = platform_system_lower e @ u '' '' @ platform_architecture e
      in case probe_node_version (node_probe e) of
           Inl err \<Rightarrow> Inl err
         | Inr node_version \<Rightarrow>
             (let vm = virtual_memory e;
                  current_time = now_strftime e;
                  report = title_block;
                  report = report @ env_heading;
                  report = report @ platform_label @ system_platform @ [10];
                  report = report @ node_label @ node_version @ [10];
                  report = report @ memory_label @ memory_status vm @ [10];
                  report = report @ time_label @ current_time @ [10, 10];
                  report = report @ capabilities_block;
                  report = report @ workflow_block;
                  report = report @ files_heading;
                  report = (if current_workspace_files \<noteq> []
                            then add_file_bullets report current_workspace_files
                            else report @ none_line);
                  report = report @ [10];
                  report = report @ experience_block;
                  report = report @ tasks_heading;
                  report = (if pending_tasks \<noteq> []
                            then add_task_bullets report pending_tasks
                            else report @ none_line);
                  report = report @ footer
              in Inr report))"

text \<open>\<open>handler\<close>: lines 4 and 5 read the two lists, each with the default \<open>[]\<close>.\<close>

definition handler :: "env \<Rightarrow> args \<Rightarrow> exn + pystr" where
  "handler e args =
     (let current_workspace_files = dict_get args (u ''current_workspace_files'') [];
          pending_tasks = dict_get args (u ''pending_tasks'') []
      in build_report e current_workspace_files pending_tasks)"

section \<open>The process (line 1 and lines 76 to 90)\<close>

text \<open>
  What one run leaves behind: the text written to standard output, what was written to
  standard error, and the exit code. Standard error receives either a text the script
  prints itself or the traceback the interpreter prints for an exception nothing caught;
  the traceback's wording is the interpreter's, so it is kept as the exception it reports.
\<close>

datatype stderr_item = Printed pystr | Traceback exn

record proc =
  stdout :: pystr
  stderr :: "stderr_item list"
  exit_code :: int

text \<open>An exception no \<open>except\<close> clause catches ends the interpreter with exit code 1.\<close>

definition uncaught :: "exn \<Rightarrow> proc" where
  "uncaught e = \<lparr>stdout = [], stderr = [Traceback e], exit_code = 1\<rparr>"

text \<open>\<open>import psutil\<close>: raises \<open>ModuleNotFoundError\<close> when the package is not there.\<close>

definition import_psutil :: "env \<Rightarrow> exn + unit" where
  "import_psutil e =
     (if psutil_installed e then Inr ()
      else Inl (Exn ModuleNotFoundError (u ''No module named '' @ [39] @ u ''psutil'' @ [39])))"

definition psutil_message :: pystr where \<comment> \<open>line 80\<close>
  "psutil_message =
     [0x9519, 0x8BEF, 0xFF1A, 0x9700, 0x8981, 0x5B89, 0x88C5] @ u ''psutil''
     @ [0x5305, 0xFF0C, 0x8BF7, 0x8FD0, 0x884C] @ u ''pip install psutil''"

definition failure_prefix :: pystr where \<comment> \<open>line 89\<close>
  "failure_prefix = [0x751F, 0x6210, 0x72B6, 0x6001, 0x62A5, 0x544A, 0x5931, 0x8D25, 0xFF1A]"

text \<open>
  What the JSON decoder returns: a mapping, or a value of another type (a list, a
  string, a number, a truth value or \<open>None\<close>). Of a mapping the model keeps the lists
  of strings under its keys.
\<close>

datatype pytype = TList | TStr | TInt | TFloat | TBool | TNoneType

fun type_name :: "pytype \<Rightarrow> pystr" where
  "type_name TList = u ''list''"
| "type_name TStr = u ''str''"
| "type_name TInt = u ''int''"
| "type_name TFloat = u ''float''"
| "type_name TBool = u ''bool''"
| "type_name TNoneType = u ''NoneType''"

datatype decoded = Mapping args | NotMapping pytype

text \<open>
  \<open>handler(args)\<close> for whatever the decoder returned: on a value that is no mapping,
  \<open>args.get\<close> of line 4 raises \<open>AttributeError\<close>.
\<close>

definition call_handler :: "env \<Rightarrow> decoded \<Rightarrow> exn + pystr" where
  "call_handler e d =
     (case d of
        Mapping args \<Rightarrow> handler e args
      | NotMapping t \<Rightarrow>
          Inl (Exn AttributeError
                 ([39] @ type_name t @ [39] @ u '' object has no attribute '' @ [39]
                  @ u ''get'' @ [39])))"

text \<open>
  \<open>print(result)\<close> writes the text and then a line feed to standard output. A write
  whose text holds a code point the encoding of standard output cannot encode raises
  \<open>UnicodeEncodeError\<close> and writes nothing. The result is what was written and
  whether the statement raised. Standard error replaces what it cannot encode, so
  printing to it does not raise.
\<close>

definition print_stdout :: "env \<Rightarrow> pystr \<Rightarrow> pystr \<times> (exn + unit)" where
  "print_stdout e text =
     (if list_all (stdout_encodes e) text
      then (if stdout_encodes e 10
            then (text @ [10], Inr ())
            else (text, Inl (Exn UnicodeEncodeError (stdout_encode_error e [10]))))
      else ([], Inl (Exn UnicodeEncodeError (stdout_encode_error e text))))"

text \<open>
  Lines 88 to 90, for an exception raised in the \<open>try\<close> of lines 85 to 87 after
  \<open>written\<close> went to standard output: \<open>except Exception\<close> prints the failure text
  and exits with code 1.
\<close>

definition report_failure :: "pystr \<Rightarrow> exn \<Rightarrow> proc" where
  "report_failure written err =
     (if isinstance err Exception
      then \<lparr>stdout = written,
            stderr = [Printed (failure_prefix @ exn_str err @ [10])],
            exit_code = 1\<rparr>
      else \<lparr>stdout = written, stderr = [Traceback err], exit_code = 1\<rparr>)"

text \<open>
  The block under \<open>if __name__ == '__main__'\<close>. The JSON decoder belongs to Python's
  library, not to this script, so it is a parameter \<open>loads\<close>: it returns what it decoded
  or the exception it raises. Line 84 stands outside every \<open>try\<close>, so an exception of
  the decoder is not caught; the call of \<open>handler\<close> and the \<open>print\<close> of its result
  both stand inside the \<open>try\<close> of lines 85 to 87.
\<close>

definition main_block :: "(pystr \<Rightarrow> exn + decoded) \<Rightarrow> env \<Rightarrow> pystr \<Rightarrow> proc" where
  "main_block loads e stdin_text =
     (case import_psutil e of
        Inl err \<Rightarrow>
          if isinstance err ImportError
          then \<lparr>stdout = [], stderr = [Printed (psutil_message @ [10])], exit_code = 1\<rparr>
          else uncaught err
      | Inr _ \<Rightarrow>
          (let raw = strip stdin_text
           in case (if raw \<noteq> [] then loads raw else Inr (Mapping Map.empty)) of
                Inl err \<Rightarrow> uncaught err
              | Inr args \<Rightarrow>
                  (case call_handler e args of
                     Inl err \<Rightarrow> report_failure [] err
                   | Inr result \<Rightarrow>
                       (case print_stdout e result of
                          (written, Inl err) \<Rightarrow> report_failure written err
                        | (written, Inr _) \<Rightarrow>
                            \<lparr>stdout = written, stderr = [], exit_code = 0\<rparr>))))"

text \<open>
  The whole module, run as a script: the imports of line 1 come first, \<open>psutil\<close> among
  them, and the definition of \<open>handler\<close> and the main block follow only when they succeed.
\<close>

definition script :: "(pystr \<Rightarrow> exn + decoded) \<Rightarrow> env \<Rightarrow> pystr \<Rightarrow> proc" where
  "script loads e stdin_text =
     (case import_psutil e of
        Inl err \<Rightarrow> uncaught err
      | Inr _ \<Rightarrow> main_block loads e stdin_text)"

section \<open>Reading the report: sections and lines\<close>

text \<open>
  The notions the properties below speak about. The environment section is the text of
  lines 28 to 32, the workspace-files section that of lines 51 to 57, the pending-tasks
  section that of lines 65 to 70.
\<close>

definition env_section :: "pystr \<Rightarrow> pystr \<Rightarrow> pystr \<Rightarrow> pystr \<Rightarrow> pystr" where
  "env_section system_platform node_version memory current_time =
     env_heading
     @ platform_label @ system_platform @ [10]
     @ node_label @ node_version @ [10]
     @ memory_label @ memory @ [10]
     @ time_label @ current_time @ [10, 10]"

definition file_bullet :: "pystr \<Rightarrow> pystr" where
  "file_bullet file = u ''- `'' @ file @ u ''`''"

definition task_bullet :: "pystr \<Rightarrow> pystr" where
  "task_bullet task = u ''- '' @ task"

definition files_section :: "pystr list \<Rightarrow> pystr" where
  "files_section files =
     files_heading
     @ (if files \<noteq> [] then concat (map (\<lambda>file. file_bullet file @ [10]) files) else none_line)
     @ [10]"

definition tasks_section :: "pystr list \<Rightarrow> pystr" where
  "tasks_section tasks =
     tasks_heading
     @ (if tasks \<noteq> [] then concat (map (\<lambda>task. task_bullet task @ [10]) tasks) else none_line)"

text \<open>
  The lines of a text, as \<open>text.split('\n')\<close> gives them, and those among them that are
  bullets, that is, start with a hyphen and a space.
\<close>

fun split_lines :: "pystr \<Rightarrow> pystr list" where
  "split_lines [] = [[]]"
| "split_lines (c # cs) =
     (if c = 10 then [] # split_lines cs
      else (case split_lines cs of [] \<Rightarrow> [[c]] | l # ls \<Rightarrow> (c # l) # ls))"

definition is_bullet :: "pystr \<Rightarrow> bool" where
  "is_bullet l = (take 2 l = u ''- '')"

definition bullet_lines :: "pystr \<Rightarrow> pystr list" where
  "bullet_lines text = filter is_bullet (split_lines text)"

section \<open>Example runs\<close>

text \<open>UTF-8 encodes every code point up to U+10FFFF but the surrogates.\<close>

definition utf8_encodes :: "nat \<Rightarrow> bool" where
  "utf8_encodes c = (c < 0xD800 \<or> (0xDFFF < c \<and> c \<le> 0x10FFFF))"

text \<open>
  A Linux machine with Node.js 20, about 8 GB of memory and UTF-8 on standard output,
  and variants of it, used to evaluate the definitions at concrete inputs. Python's
  error text for UTF-8 names the character and its position; it is shortened here, and
  no run below on this machine raises it.
\<close>

definition example_env :: env where
  "example_env =
     \<lparr>psutil_installed = True,
      platform_system_lower = u ''linux'',
      platform_architecture = u ''64bit'',
      node_probe = Exited 0 (u ''v20.11.0'' @ [10]),
      virtual_memory = \<lparr>vm_total = 8000000000, vm_available = 3000000000, vm_used = 4500000000\<rparr>,
      now_strftime = u ''2026-11-04 Wednesday'',
      stdout_encodes = utf8_encodes,
      stdout_encode_error =
        (\<lambda>text. [39] @ u ''utf-8'' @ [39] @ u '' codec can'' @ [39] @ u ''t encode characters'')\<rparr>"

text \<open>
  The same machine with a standard output that encodes no code point beyond U+FFFF, as
  with GBK; the error text is the one Python gives for the emoji of the title line.
\<close>

definition example_env_gbk :: env where
  "example_env_gbk =
     example_env
       \<lparr>stdout_encodes := (\<lambda>c. c < 0x10000),
        stdout_encode_error :=
          (\<lambda>text. [39] @ u ''gbk'' @ [39] @ u '' codec can'' @ [39] @ u ''t encode character ''
                  @ [39, 92] @ u ''U0001f916'' @ [39]
                  @ u '' in position 2: illegal multibyte sequence'')\<rparr>"

text \<open>The same machine a day later, with another memory reading.\<close>

definition example_env_later :: env where
  "example_env_later =
     example_env
       \<lparr>virtual_memory := \<lparr>vm_total = 8000000000, vm_available = 1000000000, vm_used = 6500000000\<rparr>,
        now_strftime := u ''2026-11-05 Thursday''\<rparr>"

text \<open>A decoder that rejects every text, for runs in which the decoder's answer is an error.\<close>

definition loads_rejecting :: "pystr \<Rightarrow> exn + decoded" where
  "loads_rejecting raw = Inl (Exn JSONDecodeError (u ''Expecting value''))"

text \<open>
  The text \<open>{"x": NaN}\<close>. It is no JSON document, but Python's decoder accepts it and
  returns a mapping whose only key, \<open>x\<close>, holds a float; no key of it holds a list of
  strings. The decoder below does so for this text and rejects every other text.
\<close>

definition nan_document :: pystr where
  "nan_document = u ''{'' @ [34] @ u ''x'' @ [34] @ u '': NaN}''"

definition loads_nan_document :: "pystr \<Rightarrow> exn + decoded" where
  "loads_nan_document raw =
     (if raw = nan_document then Inr (Mapping Map.empty)
      else Inl (Exn JSONDecodeError (u ''Expecting value'')))"

text \<open>A path with a line feed in it: \<open>a\<close>, a line feed, and \<open>- b\<close>.\<close>

definition two_line_path :: pystr where
  "two_line_path = u ''a'' @ [10] @ u ''- b''"

section \<open>The input as objects in a store\<close>

text \<open>
  Python passes the mapping to \<open>handler\<close> by reference, and \<open>args.get\<close> returns a
  reference to the list inside it, not a copy. To say what \<open>handler\<close> does to its input,
  the input is modelled here as objects in a store: a dictionary object maps keys to the
  addresses of its values, a list object holds strings. A dictionary's keys are distinct.
  Strings and integers are immutable values and need no address.
\<close>

type_synonym addr = nat

datatype obj = ListObj "pystr list" | DictObj "(pystr \<times> addr) list"

record store =
  objs :: "addr \<Rightarrow> obj"
  next_addr :: addr

text \<open>The list display \<open>[]\<close> creates a new, empty list object.\<close>

definition new_list :: "store \<Rightarrow> store \<times> addr" where
  "new_list s =
     (s\<lparr>objs := (objs s)(next_addr s := ListObj []), next_addr := Suc (next_addr s)\<rparr>,
      next_addr s)"

text \<open>
  \<open>x.get(key, [])\<close>: the attribute \<open>get\<close> is looked up first (a list has none), then
  the default is created, then the dictionary is read. Nothing is stored into \<open>x\<close>.
\<close>

definition get_or_new_list :: "store \<Rightarrow> addr \<Rightarrow> pystr \<Rightarrow> store \<times> (exn + addr)" where
  "get_or_new_list s x key =
     (case objs s x of
        ListObj _ \<Rightarrow>
          (s, Inl (Exn AttributeError
                     ([39] @ u ''list'' @ [39] @ u '' object has no attribute '' @ [39]
                      @ u ''get'' @ [39])))
      | DictObj items \<Rightarrow>
          (let (s', dflt) = new_list s
           in (s', Inr (case map_of items key of None \<Rightarrow> dflt | Some v \<Rightarrow> v))))"

text \<open>
  What \<open>if x:\<close> and \<open>for item in x:\<close> read from an object: a list yields its elements,
  a dictionary its keys; the object is true when it yields anything.
\<close>

fun iterate :: "obj \<Rightarrow> pystr list" where
  "iterate (ListObj xs) = xs"
| "iterate (DictObj items) = map fst items"

text \<open>
  \<open>handler\<close> on the store. Lines 4 and 5 are the only statements that reach the input
  object; lines 52, 53, 66 and 67 read the two objects they returned; every other
  statement works on strings and integers. The result is the store after the call and
  what the call returns or raises.
\<close>

definition handler_st :: "env \<Rightarrow> store \<Rightarrow> addr \<Rightarrow> store \<times> (exn + pystr)" where
  "handler_st e s args =
     (case get_or_new_list s args (u ''current_workspace_files'') of
        (s, Inl err) \<Rightarrow> (s, Inl err)
      | (s, Inr current_workspace_files) \<Rightarrow>
          (case get_or_new_list s args (u ''pending_tasks'') of
             (s, Inl err) \<Rightarrow> (s, Inl err)
           | (s, Inr pending_tasks) \<Rightarrow>
               (s, build_report e (iterate (objs s current_workspace_files))
                     (iterate (objs s pending_tasks)))))"

text \<open>The mapping a dictionary object stands for: each key with the elements of its value.\<close>

definition args_of :: "store \<Rightarrow> (pystr \<times> addr) list \<Rightarrow> args" where
  "args_of s items = (\<lambda>key. map_option (\<lambda>v. iterate (objs s v)) (map_of items key))"

text \<open>
  An example store: the mapping at address 0 holds \<open>current_workspace_files\<close>, whose
  value is the list at address 1; \<open>pending_tasks\<close> is absent.
\<close>

definition example_store :: store where
  "example_store =
     \<lparr>objs = (\<lambda>_. ListObj [])
              (0 := DictObj [(u ''current_workspace_files'', 1)],
               1 := ListObj [u ''main.js'', u ''README.md'']),
      next_addr = 2\<rparr>"

section \<open>The shape of the report\<close>

lemma add_file_bullets_eq:
  "add_file_bullets report files = report @ concat (map (\<lambda>file. file_bullet file @ [10]) files)"
  by (induction files arbitrary: report) (simp_all add: file_bullet_def)

lemma add_task_bullets_eq:
  "add_task_bullets report tasks = report @ concat (map (\<lambda>task. task_bullet task @ [10]) tasks)"
  by (induction tasks arbitrary: report) (simp_all add: task_bullet_def)

text \<open>
  When the probe yields a version text, \<open>handler\<close> returns the sections in their fixed
  order; when the probe raises, so does \<open>handler\<close>.
\<close>

lemma handler_report:
  assumes "probe_node_version (node_probe e) = Inr v"
  shows "handler e args =
     Inr (title_block
          @ env_section (platform_system_lower e @ u '' '' @ platform_architecture e) v
              (memory_status (virtual_memory e)) (now_strftime e)
          @ capabilities_block @ workflow_block
          @ files_section (dict_get args (u ''current_workspace_files'') [])
          @ experience_block
          @ tasks_section (dict_get args (u ''pending_tasks'') [])
          @ footer)"
  using assms
  by (simp add: handler_def build_report_def Let_def add_file_bullets_eq add_task_bullets_eq
      files_section_def tasks_section_def env_section_def)

lemma handler_raises:
  assumes "probe_node_version (node_probe e) = Inl err"
  shows "handler e args = Inl err"
  using assms by (simp add: handler_def build_report_def Let_def)

lemma example_probe: "probe_node_version (node_probe example_env) = Inr (u ''v20.11.0'')"
  by (simp add: example_env_def probe_node_version_def subprocess_run_def strip_def
      isspace_def u_def)

lemma example_used: "str_int (used_mb (virtual_memory example_env)) = u ''4291''"
  by (simp add: example_env_def used_mb_def str_int_def str_nat.simps u_def)

lemma example_total: "str_int (total_mb (virtual_memory example_env)) = u ''7629''"
  by (simp add: example_env_def total_mb_def str_int_def str_nat.simps u_def)

lemma example_free: "str_int (free_mb (virtual_memory example_env)) = u ''2861''"
  by (simp add: example_env_def free_mb_def str_int_def str_nat.simps u_def)

section \<open>The memory line\<close>

text \<open>
  C3. For every memory reading, the report's memory line holds the used, total and
  available byte counts, each divided by 1,048,576 with integer division, in the format
  of line 21: the word for "used", the first value and \<open>MB / \<close>, the word for "total",
  the second value and \<open>MB (\<close>, the word for "free", the third value and \<open>MB)\<close>. The
  line follows the platform and Node.js lines of the environment section.
\<close>

theorem memory_line_format:
  assumes "probe_node_version (node_probe e) = Inr v"
  shows "\<exists>rest. handler e args =
     Inr (title_block @ env_heading
          @ platform_label @ platform_system_lower e @ u '' '' @ platform_architecture e @ [10]
          @ node_label @ v @ [10]
          @ memory_label
          @ [0x5DF2, 0x7528] @ str_int (vm_used (virtual_memory e) div 1048576)
          @ u ''MB / '' @ [0x603B] @ str_int (vm_total (virtual_memory e) div 1048576)
          @ u ''MB ('' @ [0x5269, 0x4F59] @ str_int (vm_available (virtual_memory e) div 1048576)
          @ u ''MB)'' @ [10]
          @ rest)"
  by (simp add: handler_report [OF assms] env_section_def memory_status_def
      used_mb_def total_mb_def free_mb_def)

theorem memory_line_format_witness:
  "probe_node_version (node_probe example_env) = Inr (u ''v20.11.0'')
   \<and> (\<exists>rest. handler example_env Map.empty =
     Inr (title_block @ env_heading
          @ platform_label @ u ''linux 64bit'' @ [10]
          @ node_label @ u ''v20.11.0'' @ [10]
          @ memory_label
          @ [0x5DF2, 0x7528] @ u ''4291MB / '' @ [0x603B] @ u ''7629MB ('' @ [0x5269, 0x4F59]
          @ u ''2861MB)'' @ [10]
          @ rest))"
proof -
  have p: "probe_node_version (node_probe example_env) = Inr (u ''v20.11.0'')"
    by (rule example_probe)
  have used: "str_int (vm_used (virtual_memory example_env) div 1048576) = u ''4291''"
    using example_used by (simp add: used_mb_def)
  have total: "str_int (vm_total (virtual_memory example_env) div 1048576) = u ''7629''"
    using example_total by (simp add: total_mb_def)
  have avail: "str_int (vm_available (virtual_memory example_env) div 1048576) = u ''2861''"
    using example_free by (simp add: free_mb_def)
  have plat: "platform_system_lower example_env @ u '' '' @ platform_architecture example_env
              = u ''linux 64bit''"
    by (simp add: example_env_def u_def)
  from memory_line_format [OF p, of Map.empty] obtain rest where
    "handler example_env Map.empty =
     Inr (title_block @ env_heading
          @ platform_label @ platform_system_lower example_env @ u '' ''
          @ platform_architecture example_env @ [10]
          @ node_label @ u ''v20.11.0'' @ [10]
          @ memory_label
          @ [0x5DF2, 0x7528] @ str_int (vm_used (virtual_memory example_env) div 1048576)
          @ u ''MB / '' @ [0x603B] @ str_int (vm_total (virtual_memory example_env) div 1048576)
          @ u ''MB ('' @ [0x5269, 0x4F59]
          @ str_int (vm_available (virtual_memory example_env) div 1048576)
          @ u ''MB)'' @ [10]
          @ rest)"
    by blast
  then have "handler example_env Map.empty =
     Inr (title_block @ env_heading
          @ platform_label @ u ''linux 64bit'' @ [10]
          @ node_label @ u ''v20.11.0'' @ [10]
          @ memory_label
          @ [0x5DF2, 0x7528] @ u ''4291MB / '' @ [0x603B] @ u ''7629MB ('' @ [0x5269, 0x4F59]
          @ u ''2861MB)'' @ [10]
          @ rest)"
    using plat by (simp add: used total avail u_def)
  with p show ?thesis by blast
qed

text \<open>
  C4. For every memory reading whose total is at least its used and at least its
  available byte count, the three megabyte values \<open>U\<close>, \<open>T\<close>, \<open>F\<close> written into the
  report's memory line satisfy \<open>U \<le> T\<close> and \<open>F \<le> T\<close>.
\<close>

theorem memory_line_bounds:
  assumes "probe_node_version (node_probe e) = Inr v"
    and "vm_used (virtual_memory e) \<le> vm_total (virtual_memory e)"
    and "vm_available (virtual_memory e) \<le> vm_total (virtual_memory e)"
  shows "\<exists>U T F before rest.
           handler e args =
             Inr (before @ memory_label
                  @ [0x5DF2, 0x7528] @ str_int U @ u ''MB / '' @ [0x603B] @ str_int T
                  @ u ''MB ('' @ [0x5269, 0x4F59] @ str_int F @ u ''MB)'' @ [10] @ rest)
           \<and> U = used_mb (virtual_memory e) \<and> T = total_mb (virtual_memory e)
           \<and> F = free_mb (virtual_memory e) \<and> U \<le> T \<and> F \<le> T"
proof -
  let ?vm = "virtual_memory e"
  have le: "used_mb ?vm \<le> total_mb ?vm" "free_mb ?vm \<le> total_mb ?vm"
    using assms(2,3) by (simp_all add: used_mb_def total_mb_def free_mb_def zdiv_mono1)
  have "handler e args =
          Inr ((title_block @ env_heading
                @ platform_label @ platform_system_lower e @ u '' '' @ platform_architecture e @ [10]
                @ node_label @ v @ [10])
               @ memory_label
               @ [0x5DF2, 0x7528] @ str_int (used_mb ?vm) @ u ''MB / '' @ [0x603B]
               @ str_int (total_mb ?vm) @ u ''MB ('' @ [0x5269, 0x4F59] @ str_int (free_mb ?vm)
               @ u ''MB)'' @ [10]
               @ (time_label @ now_strftime e @ [10, 10]
                  @ capabilities_block @ workflow_block
                  @ files_section (dict_get args (u ''current_workspace_files'') [])
                  @ experience_block
                  @ tasks_section (dict_get args (u ''pending_tasks'') [])
                  @ footer))"
    by (simp add: handler_report [OF assms(1)] env_section_def memory_status_def)
  with le show ?thesis by blast
qed

theorem memory_line_bounds_witness:
  "probe_node_version (node_probe example_env) = Inr (u ''v20.11.0'')
   \<and> vm_used (virtual_memory example_env) \<le> vm_total (virtual_memory example_env)
   \<and> vm_available (virtual_memory example_env) \<le> vm_total (virtual_memory example_env)
   \<and> (\<exists>U T F before rest.
           handler example_env Map.empty =
             Inr (before @ memory_label
                  @ [0x5DF2, 0x7528] @ str_int U @ u ''MB / '' @ [0x603B] @ str_int T
                  @ u ''MB ('' @ [0x5269, 0x4F59] @ str_int F @ u ''MB)'' @ [10] @ rest)
           \<and> U = 4291 \<and> T = 7629 \<and> F = 2861 \<and> U \<le> T \<and> F \<le> T)"
proof -
  have p: "probe_node_version (node_probe example_env) = Inr (u ''v20.11.0'')"
    by (rule example_probe)
  have a: "vm_used (virtual_memory example_env) \<le> vm_total (virtual_memory example_env)"
    by (simp add: example_env_def)
  have b: "vm_available (virtual_memory example_env) \<le> vm_total (virtual_memory example_env)"
    by (simp add: example_env_def)
  have v: "used_mb (virtual_memory example_env) = 4291"
    "total_mb (virtual_memory example_env) = 7629"
    "free_mb (virtual_memory example_env) = 2861"
    by (simp_all add: example_env_def used_mb_def total_mb_def free_mb_def)
  from memory_line_bounds [OF p a b, of Map.empty] v p a b show ?thesis
    by simp
qed

section \<open>The version probe\<close>

lemma probe_missing: "probe_node_version BinaryMissing = Inr not_installed"
  by (simp add: probe_node_version_def subprocess_run_def isinstance_def)

lemma probe_exited: "probe_node_version (Exited returncode out) = Inr (strip out)"
  by (simp add: probe_node_version_def subprocess_run_def)

lemma probe_timeout: "\<exists>msg. probe_node_version TimedOut = Inl (Exn TimeoutExpired msg)"
  by (simp add: probe_node_version_def subprocess_run_def isinstance_def)

text \<open>
  C1. The claim is that each failing outcome of the probe (no executable, a non-zero
  exit, the time limit) puts the "not installed" sentinel in place of the version and
  lets \<open>handler\<close> return. Evaluated on the three outcomes: with no executable the
  sentinel is the version; with exit code 1 and nothing on standard output the version
  is the empty text, not the sentinel; with the time limit exceeded \<open>handler\<close> returns
  no report but raises \<open>TimeoutExpired\<close>.
\<close>

theorem probe_failure_runs:
  "probe_node_version BinaryMissing = Inr not_installed
   \<and> probe_node_version (Exited 1 []) = Inr []
   \<and> handler (example_env\<lparr>node_probe := TimedOut\<rparr>) Map.empty =
       Inl (Exn TimeoutExpired
              (u ''Command '' @ [39] @ u ''['' @ [39] @ u ''node'' @ [39] @ u '', ''
               @ [39] @ u ''-v'' @ [39] @ u '']'' @ [39] @ u '' timed out after 5 seconds''))"
  by (simp add: handler_def build_report_def Let_def probe_node_version_def subprocess_run_def
      isinstance_def strip_def example_env_def)

section \<open>A missing psutil\<close>

lemma script_without_psutil:
  assumes "\<not> psutil_installed e"
  shows "script loads e stdin_text =
           uncaught (Exn ModuleNotFoundError (u ''No module named '' @ [39] @ u ''psutil'' @ [39]))"
  using assms by (simp add: script_def import_psutil_def)

text \<open>The guard of lines 77 to 81 would print the message, were it ever reached without psutil.\<close>

lemma main_block_without_psutil:
  assumes "\<not> psutil_installed e"
  shows "main_block loads e stdin_text =
           \<lparr>stdout = [], stderr = [Printed (psutil_message @ [10])], exit_code = 1\<rparr>"
  using assms by (simp add: main_block_def import_psutil_def isinstance_def)

text \<open>
  C2. The claim is that without psutil the process writes the fixed message asking to
  install psutil to standard error and exits with code 1. Evaluated on a machine without
  psutil: the run ends at line 1 with the interpreter's traceback for
  \<open>ModuleNotFoundError\<close> on standard error and exit code 1; the fixed message is not
  written.
\<close>

theorem missing_psutil_run:
  "script loads_rejecting (example_env\<lparr>psutil_installed := False\<rparr>) [] =
     \<lparr>stdout = [],
      stderr = [Traceback (Exn ModuleNotFoundError
                             (u ''No module named '' @ [39] @ u ''psutil'' @ [39]))],
      exit_code = 1\<rparr>
   \<and> stderr (script loads_rejecting (example_env\<lparr>psutil_installed := False\<rparr>) [])
       \<noteq> [Printed (psutil_message @ [10])]"
  by (simp add: script_def import_psutil_def uncaught_def example_env_def)

section \<open>The placeholder for empty lists\<close>

text \<open>With no files and no tasks, the report is the template with the placeholder twice.\<close>

lemma empty_report:
  assumes "probe_node_version (node_probe e) = Inr v"
    and "dict_get args (u ''current_workspace_files'') [] = []"
    and "dict_get args (u ''pending_tasks'') [] = []"
  shows "handler e args =
     Inr (title_block
          @ env_section (platform_system_lower e @ u '' '' @ platform_architecture e) v
              (memory_status (virtual_memory e)) (now_strftime e)
          @ capabilities_block @ workflow_block
          @ (u ''## '' @ [0x1F4C2] @ u '' '' @ [0x5F53, 0x524D, 0x5DE5, 0x4F5C, 0x533A, 0x6587, 0x4EF6, 10]
             @ (u ''- '' @ [0x65E0, 10]) @ [10])
          @ experience_block
          @ (u ''## '' @ [0x1F3AF] @ u '' '' @ [0x5F85, 0x529E, 0x4E8B, 0x9879, 10]
             @ (u ''- '' @ [0x65E0, 10]))
          @ footer)"
  using assms(2,3)
  by (simp add: handler_report [OF assms(1)] files_section_def tasks_section_def
      files_heading_def tasks_heading_def none_line_def)

lemma example_platform:
  "platform_system_lower example_env @ u '' '' @ platform_architecture example_env
     = u ''linux 64bit''"
  by (simp add: example_env_def u_def)

lemma example_now: "now_strftime example_env = u ''2026-11-04 Wednesday''"
  by (simp add: example_env_def)

text \<open>
  C6. When \<open>current_workspace_files\<close> and \<open>pending_tasks\<close> are each empty or absent,
  the report has the placeholder bullet, a hyphen, a space, the character U+65E0
  ("none") and a line feed, as the only line under the heading of the workspace-files
  section and as the only line under the heading of the pending-tasks section.
\<close>

theorem none_placeholders:
  assumes "probe_node_version (node_probe e) = Inr v"
    and "args (u ''current_workspace_files'') = None \<or> args (u ''current_workspace_files'') = Some []"
    and "args (u ''pending_tasks'') = None \<or> args (u ''pending_tasks'') = Some []"
  shows "handler e args =
     Inr (title_block
          @ env_section (platform_system_lower e @ u '' '' @ platform_architecture e) v
              (memory_status (virtual_memory e)) (now_strftime e)
          @ capabilities_block @ workflow_block
          @ (u ''## '' @ [0x1F4C2] @ u '' '' @ [0x5F53, 0x524D, 0x5DE5, 0x4F5C, 0x533A, 0x6587, 0x4EF6, 10]
             @ (u ''- '' @ [0x65E0, 10]) @ [10])
          @ experience_block
          @ (u ''## '' @ [0x1F3AF] @ u '' '' @ [0x5F85, 0x529E, 0x4E8B, 0x9879, 10]
             @ (u ''- '' @ [0x65E0, 10]))
          @ footer)"
proof -
  have "dict_get args (u ''current_workspace_files'') [] = []"
    using assms(2) by (auto simp: dict_get_def)
  moreover have "dict_get args (u ''pending_tasks'') [] = []"
    using assms(3) by (auto simp: dict_get_def)
  ultimately show ?thesis
    by (rule empty_report [OF assms(1)])
qed

theorem none_placeholders_witness:
  "probe_node_version (node_probe example_env) = Inr (u ''v20.11.0'')
   \<and> (Map.empty (u ''current_workspace_files'') = (None :: pystr list option)
        \<or> Map.empty (u ''current_workspace_files'') = Some ([] :: pystr list))
   \<and> ([u ''pending_tasks'' \<mapsto> ([] :: pystr list)] (u ''pending_tasks'') = None
        \<or> [u ''pending_tasks'' \<mapsto> ([] :: pystr list)] (u ''pending_tasks'') = Some [])
   \<and> handler example_env [u ''pending_tasks'' \<mapsto> []] =
     Inr (title_block
          @ env_section (u ''linux 64bit'') (u ''v20.11.0'')
              (memory_status (virtual_memory example_env)) (u ''2026-11-04 Wednesday'')
          @ capabilities_block @ workflow_block
          @ (u ''## '' @ [0x1F4C2] @ u '' '' @ [0x5F53, 0x524D, 0x5DE5, 0x4F5C, 0x533A, 0x6587, 0x4EF6, 10]
             @ (u ''- '' @ [0x65E0, 10]) @ [10])
          @ experience_block
          @ (u ''## '' @ [0x1F3AF] @ u '' '' @ [0x5F85, 0x529E, 0x4E8B, 0x9879, 10]
             @ (u ''- '' @ [0x65E0, 10]))
          @ footer)"
proof -
  have p: "probe_node_version (node_probe example_env) = Inr (u ''v20.11.0'')"
    by (rule example_probe)
  have a: "[u ''pending_tasks'' \<mapsto> ([] :: pystr list)] (u ''current_workspace_files'') = None
           \<or> [u ''pending_tasks'' \<mapsto> ([] :: pystr list)] (u ''current_workspace_files'') = Some []"
    by (simp add: u_def)
  have b: "[u ''pending_tasks'' \<mapsto> ([] :: pystr list)] (u ''pending_tasks'') = None
           \<or> [u ''pending_tasks'' \<mapsto> ([] :: pystr list)] (u ''pending_tasks'') = Some []"
    by simp
  have c: "Map.empty (u ''current_workspace_files'') = (None :: pystr list option)
           \<or> Map.empty (u ''current_workspace_files'') = Some ([] :: pystr list)"
    by simp
  have h: "handler example_env [u ''pending_tasks'' \<mapsto> []] =
     Inr (title_block
          @ env_section (u ''linux 64bit'') (u ''v20.11.0'')
              (memory_status (virtual_memory example_env)) (u ''2026-11-04 Wednesday'')
          @ capabilities_block @ workflow_block
          @ (u ''## '' @ [0x1F4C2] @ u '' '' @ [0x5F53, 0x524D, 0x5DE5, 0x4F5C, 0x533A, 0x6587, 0x4EF6, 10]
             @ (u ''- '' @ [0x65E0, 10]) @ [10])
          @ experience_block
          @ (u ''## '' @ [0x1F3AF] @ u '' '' @ [0x5F85, 0x529E, 0x4E8B, 0x9879, 10]
             @ (u ''- '' @ [0x65E0, 10]))
          @ footer)"
    using none_placeholders [OF p a b] unfolding example_platform example_now .
  from p c b h show ?thesis by blast
qed

section \<open>Two runs\<close>

text \<open>
  C8. Two calls of \<open>handler\<close> with the same input, on environments that agree on the
  platform and on the outcome of the version probe and may differ in the memory reading
  and the timestamp, either raise the same exception or return reports that are the same
  text \<open>A\<close>, the run's memory text, the same text \<open>B\<close>, the run's timestamp, and the
  same text \<open>C\<close>.
\<close>

theorem report_determinism:
  assumes "platform_system_lower e1 = platform_system_lower e2"
    and "platform_architecture e1 = platform_architecture e2"
    and "node_probe e1 = node_probe e2"
  shows "(\<exists>err. handler e1 args = Inl err \<and> handler e2 args = Inl err)
         \<or> (\<exists>A B C.
               handler e1 args =
                 Inr (A @ memory_status (virtual_memory e1) @ B @ now_strftime e1 @ C)
               \<and> handler e2 args =
                 Inr (A @ memory_status (virtual_memory e2) @ B @ now_strftime e2 @ C))"
proof (cases "probe_node_version (node_probe e1)")
  case (Inl err)
  then have "handler e1 args = Inl err" "handler e2 args = Inl err"
    using assms(3) by (simp_all add: handler_raises)
  then show ?thesis by blast
next
  case (Inr v)
  let ?A = "title_block @ env_heading
            @ platform_label @ platform_system_lower e1 @ u '' '' @ platform_architecture e1 @ [10]
            @ node_label @ v @ [10] @ memory_label"
  let ?B = "[10] @ time_label"
  let ?C = "[10, 10] @ capabilities_block @ workflow_block
            @ files_section (dict_get args (u ''current_workspace_files'') [])
            @ experience_block
            @ tasks_section (dict_get args (u ''pending_tasks'') [])
            @ footer"
  have p2: "probe_node_version (node_probe e2) = Inr v"
    using Inr assms(3) by simp
  have "handler e1 args = Inr (?A @ memory_status (virtual_memory e1) @ ?B @ now_strftime e1 @ ?C)"
    by (simp add: handler_report [OF Inr] env_section_def)
  moreover
  have "handler e2 args = Inr (?A @ memory_status (virtual_memory e2) @ ?B @ now_strftime e2 @ ?C)"
    using assms(1,2) by (simp add: handler_report [OF p2] env_section_def)
  ultimately show ?thesis by blast
qed

theorem report_determinism_witness:
  "platform_system_lower example_env = platform_system_lower example_env_later
   \<and> platform_architecture example_env = platform_architecture example_env_later
   \<and> node_probe example_env = node_probe example_env_later
   \<and> virtual_memory example_env \<noteq> virtual_memory example_env_later
   \<and> now_strftime example_env \<noteq> now_strftime example_env_later
   \<and> ((\<exists>err. handler example_env Map.empty = Inl err
              \<and> handler example_env_later Map.empty = Inl err)
         \<or> (\<exists>A B C.
               handler example_env Map.empty =
                 Inr (A @ memory_status (virtual_memory example_env) @ B
                      @ now_strftime example_env @ C)
               \<and> handler example_env_later Map.empty =
                 Inr (A @ memory_status (virtual_memory example_env_later) @ B
                      @ now_strftime example_env_later @ C)))"
proof -
  have a: "platform_system_lower example_env = platform_system_lower example_env_later"
    and b: "platform_architecture example_env = platform_architecture example_env_later"
    and c: "node_probe example_env = node_probe example_env_later"
    by (simp_all add: example_env_later_def)
  have d: "virtual_memory example_env \<noteq> virtual_memory example_env_later"
    and t: "now_strftime example_env \<noteq> now_strftime example_env_later"
    by (simp_all add: example_env_later_def example_env_def u_def)
  from a b c d t report_determinism [OF a b c, of Map.empty] show ?thesis
    by blast
qed

section \<open>Standard input\<close>

lemma strip_whitespace:
  assumes "list_all isspace s"
  shows "strip s = []"
proof -
  have d: "dropWhile isspace s = []"
    using assms by (induction s) simp_all
  show ?thesis unfolding strip_def d by simp
qed

lemma strip_Nil: "strip [] = []"
  by (simp add: strip_def)

lemma main_block_empty_input:
  assumes "strip stdin_text = []"
  shows "main_block loads e stdin_text = main_block loads' e []"
  using assms by (cases "import_psutil e") (simp_all add: main_block_def strip_Nil)

lemma script_empty_input:
  assumes "strip stdin_text = []"
  shows "script loads e stdin_text = script loads' e []"
  by (cases "import_psutil e")
     (simp_all add: script_def main_block_empty_input [OF assms, of loads e loads'])

text \<open>The run on a decoded value, once psutil is there.\<close>

lemma script_decoded:
  assumes "psutil_installed e"
    and "(if strip stdin_text \<noteq> [] then loads (strip stdin_text) else Inr (Mapping Map.empty))
           = Inr d"
  shows "script loads e stdin_text =
           (case call_handler e d of
              Inl err \<Rightarrow> report_failure [] err
            | Inr result \<Rightarrow>
                (case print_stdout e result of
                   (written, Inl err) \<Rightarrow> report_failure written err
                 | (written, Inr _) \<Rightarrow> \<lparr>stdout = written, stderr = [], exit_code = 0\<rparr>))"
  using assms by (simp add: script_def main_block_def import_psutil_def Let_def)

lemma print_stdout_ok:
  assumes "list_all (stdout_encodes e) text" and "stdout_encodes e 10"
  shows "print_stdout e text = (text @ [10], Inr ())"
  using assms by (simp add: print_stdout_def)

lemma script_report:
  assumes "psutil_installed e" and "strip stdin_text = []" and "handler e Map.empty = Inr r"
    and "list_all (stdout_encodes e) r" and "stdout_encodes e 10"
  shows "script loads e stdin_text = \<lparr>stdout = r @ [10], stderr = [], exit_code = 0\<rparr>"
proof -
  have "(if strip stdin_text \<noteq> [] then loads (strip stdin_text) else Inr (Mapping Map.empty))
          = Inr (Mapping Map.empty)"
    using assms(2) by simp
  from script_decoded [where loads = loads and stdin_text = stdin_text, OF assms(1) this]
  show ?thesis
    by (simp add: call_handler_def assms(3) print_stdout_ok [OF assms(4,5)])
qed

text \<open>The report of the example machine for the empty mapping, and UTF-8 encodes it.\<close>

lemma example_empty_report:
  "handler example_env Map.empty =
     Inr (title_block
          @ env_section (u ''linux 64bit'') (u ''v20.11.0'')
              (memory_status (virtual_memory example_env)) (u ''2026-11-04 Wednesday'')
          @ capabilities_block @ workflow_block
          @ (u ''## '' @ [0x1F4C2] @ u '' '' @ [0x5F53, 0x524D, 0x5DE5, 0x4F5C, 0x533A, 0x6587, 0x4EF6, 10]
             @ (u ''- '' @ [0x65E0, 10]) @ [10])
          @ experience_block
          @ (u ''## '' @ [0x1F3AF] @ u '' '' @ [0x5F85, 0x529E, 0x4E8B, 0x9879, 10]
             @ (u ''- '' @ [0x65E0, 10]))
          @ footer)"
  using empty_report [OF example_probe, of Map.empty]
  unfolding example_platform example_now by (simp add: dict_get_def)

lemma example_memory_status:
  "memory_status (virtual_memory example_env) =
     [0x5DF2, 0x7528] @ u ''4291MB / '' @ [0x603B] @ u ''7629MB ('' @ [0x5269, 0x4F59]
     @ u ''2861MB)''"
  by (simp add: memory_status_def example_used example_total example_free u_def)

lemma example_empty_report_encodes:
  "list_all (stdout_encodes example_env)
     (title_block
      @ env_section (u ''linux 64bit'') (u ''v20.11.0'')
          (memory_status (virtual_memory example_env)) (u ''2026-11-04 Wednesday'')
      @ capabilities_block @ workflow_block
      @ (u ''## '' @ [0x1F4C2] @ u '' '' @ [0x5F53, 0x524D, 0x5DE5, 0x4F5C, 0x533A, 0x6587, 0x4EF6, 10]
         @ (u ''- '' @ [0x65E0, 10]) @ [10])
      @ experience_block
      @ (u ''## '' @ [0x1F3AF] @ u '' '' @ [0x5F85, 0x529E, 0x4E8B, 0x9879, 10]
         @ (u ''- '' @ [0x65E0, 10]))
      @ footer)"
proof -
  have e: "stdout_encodes example_env = utf8_encodes"
    by (simp add: example_env_def)
  have "list_all utf8_encodes title_block"
    by (simp add: title_block_def utf8_encodes_def u_def)
  moreover have "list_all utf8_encodes
                   (env_section (u ''linux 64bit'') (u ''v20.11.0'')
                      (memory_status (virtual_memory example_env)) (u ''2026-11-04 Wednesday''))"
    by (simp add: env_section_def env_heading_def platform_label_def node_label_def
        memory_label_def time_label_def example_memory_status utf8_encodes_def u_def)
  moreover have "list_all utf8_encodes capabilities_block"
    by (simp add: capabilities_block_def utf8_encodes_def u_def)
  moreover have "list_all utf8_encodes workflow_block"
    by (simp add: workflow_block_def utf8_encodes_def u_def)
  moreover have "list_all utf8_encodes
                   (u ''## '' @ [0x1F4C2] @ u '' '' @ [0x5F53, 0x524D, 0x5DE5, 0x4F5C, 0x533A, 0x6587, 0x4EF6, 10]
                    @ (u ''- '' @ [0x65E0, 10]) @ [10])"
    by (simp add: utf8_encodes_def u_def)
  moreover have "list_all utf8_encodes experience_block"
    by (simp add: experience_block_def utf8_encodes_def u_def)
  moreover have "list_all utf8_encodes
                   (u ''## '' @ [0x1F3AF] @ u '' '' @ [0x5F85, 0x529E, 0x4E8B, 0x9879, 10]
                    @ (u ''- '' @ [0x65E0, 10]))"
    by (simp add: utf8_encodes_def u_def)
  moreover have "list_all utf8_encodes footer"
    by (simp add: footer_def utf8_encodes_def u_def)
  ultimately show ?thesis
    unfolding e by (simp only: list_all_append simp_thms)
qed

lemma example_line_feed_encodes: "stdout_encodes example_env 10"
  by (simp add: example_env_def utf8_encodes_def)

text \<open>
  C10. Standard input that holds only white space is treated as the empty object: the
  run is that of empty standard input, whatever the decoder would say of the text. When
  psutil is there, the probe yields a version and standard output can encode the report,
  standard output receives the report with the placeholder bullet (a hyphen, a space,
  the character U+65E0 and a line feed) under the heading of the workspace-files section
  and under the heading of the pending-tasks section, nothing is written to standard
  error and the exit code is 0.
\<close>

theorem whitespace_stdin:
  assumes "list_all isspace stdin_text"
  shows "script loads e stdin_text = script loads' e []
         \<and> (psutil_installed e \<longrightarrow> probe_node_version (node_probe e) = Inr v \<longrightarrow>
              report =
                title_block
                @ env_section (platform_system_lower e @ u '' '' @ platform_architecture e) v
                    (memory_status (virtual_memory e)) (now_strftime e)
                @ capabilities_block @ workflow_block
                @ (u ''## '' @ [0x1F4C2] @ u '' '' @ [0x5F53, 0x524D, 0x5DE5, 0x4F5C, 0x533A, 0x6587, 0x4EF6, 10]
                   @ (u ''- '' @ [0x65E0, 10]) @ [10])
                @ experience_block
                @ (u ''## '' @ [0x1F3AF] @ u '' '' @ [0x5F85, 0x529E, 0x4E8B, 0x9879, 10]
                   @ (u ''- '' @ [0x65E0, 10]))
                @ footer \<longrightarrow>
              list_all (stdout_encodes e) report \<longrightarrow> stdout_encodes e 10 \<longrightarrow>
              script loads e stdin_text =
                \<lparr>stdout = report @ [10], stderr = [], exit_code = 0\<rparr>)"
proof -
  have s: "strip stdin_text = []"
    using assms by (rule strip_whitespace)
  have "script loads e stdin_text = script loads' e []"
    using s by (rule script_empty_input)
  moreover
  have "script loads e stdin_text = \<lparr>stdout = report @ [10], stderr = [], exit_code = 0\<rparr>"
    if i: "psutil_installed e" and p: "probe_node_version (node_probe e) = Inr v"
      and r: "report =
                title_block
                @ env_section (platform_system_lower e @ u '' '' @ platform_architecture e) v
                    (memory_status (virtual_memory e)) (now_strftime e)
                @ capabilities_block @ workflow_block
                @ (u ''## '' @ [0x1F4C2] @ u '' '' @ [0x5F53, 0x524D, 0x5DE5, 0x4F5C, 0x533A, 0x6587, 0x4EF6, 10]
                   @ (u ''- '' @ [0x65E0, 10]) @ [10])
                @ experience_block
                @ (u ''## '' @ [0x1F3AF] @ u '' '' @ [0x5F85, 0x529E, 0x4E8B, 0x9879, 10]
                   @ (u ''- '' @ [0x65E0, 10]))
                @ footer"
      and enc: "list_all (stdout_encodes e) report" "stdout_encodes e 10"
  proof -
    have "handler e Map.empty = Inr report"
      unfolding r by (rule empty_report [OF p]) (simp_all add: dict_get_def)
    then show ?thesis
      using enc by (rule script_report [OF i s])
  qed
  ultimately show ?thesis by blast
qed

theorem whitespace_stdin_witness:
  "list_all isspace [32, 10, 9, 0x3000]
   \<and> script loads_rejecting example_env [32, 10, 9, 0x3000] = script loads_rejecting example_env []
   \<and> psutil_installed example_env
   \<and> probe_node_version (node_probe example_env) = Inr (u ''v20.11.0'')
   \<and> list_all (stdout_encodes example_env)
        (title_block
         @ env_section (u ''linux 64bit'') (u ''v20.11.0'')
             (memory_status (virtual_memory example_env)) (u ''2026-11-04 Wednesday'')
         @ capabilities_block @ workflow_block
         @ (u ''## '' @ [0x1F4C2] @ u '' '' @ [0x5F53, 0x524D, 0x5DE5, 0x4F5C, 0x533A, 0x6587, 0x4EF6, 10]
            @ (u ''- '' @ [0x65E0, 10]) @ [10])
         @ experience_block
         @ (u ''## '' @ [0x1F3AF] @ u '' '' @ [0x5F85, 0x529E, 0x4E8B, 0x9879, 10]
            @ (u ''- '' @ [0x65E0, 10]))
         @ footer)
   \<and> stdout_encodes example_env 10
   \<and> script loads_rejecting example_env [32, 10, 9, 0x3000] =
       \<lparr>stdout =
          (title_block
           @ env_section (u ''linux 64bit'') (u ''v20.11.0'')
               (memory_status (virtual_memory example_env)) (u ''2026-11-04 Wednesday'')
           @ capabilities_block @ workflow_block
           @ (u ''## '' @ [0x1F4C2] @ u '' '' @ [0x5F53, 0x524D, 0x5DE5, 0x4F5C, 0x533A, 0x6587, 0x4EF6, 10]
              @ (u ''- '' @ [0x65E0, 10]) @ [10])
           @ experience_block
           @ (u ''## '' @ [0x1F3AF] @ u '' '' @ [0x5F85, 0x529E, 0x4E8B, 0x9879, 10]
              @ (u ''- '' @ [0x65E0, 10]))
           @ footer) @ [10],
        stderr = [], exit_code = 0\<rparr>"
proof -
  have w: "list_all isspace [32, 10, 9, 0x3000]"
    by (simp add: isspace_def)
  have i: "psutil_installed example_env"
    by (simp add: example_env_def)
  have p: "probe_node_version (node_probe example_env) = Inr (u ''v20.11.0'')"
    by (rule example_probe)
  note enc = example_empty_report_encodes
  note lf = example_line_feed_encodes
  have "script loads_rejecting example_env [32, 10, 9, 0x3000] =
          script loads_rejecting example_env []
        \<and> script loads_rejecting example_env [32, 10, 9, 0x3000] =
            \<lparr>stdout =
               (title_block
                @ env_section (u ''linux 64bit'') (u ''v20.11.0'')
                    (memory_status (virtual_memory example_env)) (u ''2026-11-04 Wednesday'')
                @ capabilities_block @ workflow_block
                @ (u ''## '' @ [0x1F4C2] @ u '' '' @ [0x5F53, 0x524D, 0x5DE5, 0x4F5C, 0x533A, 0x6587, 0x4EF6, 10]
                   @ (u ''- '' @ [0x65E0, 10]) @ [10])
                @ experience_block
                @ (u ''## '' @ [0x1F3AF] @ u '' '' @ [0x5F85, 0x529E, 0x4E8B, 0x9879, 10]
                   @ (u ''- '' @ [0x65E0, 10]))
                @ footer) @ [10],
             stderr = [], exit_code = 0\<rparr>"
    using whitespace_stdin
            [OF w, where loads = loads_rejecting and loads' = loads_rejecting
               and e = example_env and v = "u ''v20.11.0''"
               and report = "title_block
                        @ env_section (u ''linux 64bit'') (u ''v20.11.0'')
                            (memory_status (virtual_memory example_env)) (u ''2026-11-04 Wednesday'')
                        @ capabilities_block @ workflow_block
                        @ (u ''## '' @ [0x1F4C2] @ u '' '' @ [0x5F53, 0x524D, 0x5DE5, 0x4F5C, 0x533A, 0x6587, 0x4EF6, 10]
                           @ (u ''- '' @ [0x65E0, 10]) @ [10])
                        @ experience_block
                        @ (u ''## '' @ [0x1F3AF] @ u '' '' @ [0x5F85, 0x529E, 0x4E8B, 0x9879, 10]
                           @ (u ''- '' @ [0x65E0, 10]))
                        @ footer"]
          i p enc lf
    unfolding example_platform example_now by blast
  with w i p enc lf show ?thesis by blast
qed

text \<open>
  With a standard output that cannot encode the emoji of the title line, \<open>print\<close>
  raises inside the \<open>try\<close>, and the run ends with the failure text and exit code 1.
\<close>

lemma print_failure_run:
  "script loads_rejecting example_env_gbk [] =
     \<lparr>stdout = [],
      stderr = [Printed (failure_prefix
                         @ [39] @ u ''gbk'' @ [39] @ u '' codec can'' @ [39]
                         @ u ''t encode character '' @ [39, 92] @ u ''U0001f916'' @ [39]
                         @ u '' in position 2: illegal multibyte sequence'' @ [10])],
      exit_code = 1\<rparr>"
proof -
  have i: "psutil_installed example_env_gbk"
    by (simp add: example_env_gbk_def example_env_def)
  have p: "probe_node_version (node_probe example_env_gbk) = Inr (u ''v20.11.0'')"
    using example_probe by (simp add: example_env_gbk_def)
  obtain r rest where h: "handler example_env_gbk Map.empty = Inr r"
    and r: "r = u ''# '' @ [0x1F916] @ rest"
    using handler_report [OF p, of Map.empty] by (simp add: title_block_def)
  have n: "\<not> list_all (stdout_encodes example_env_gbk) r"
    unfolding r by (simp add: example_env_gbk_def u_def)
  have pr: "print_stdout example_env_gbk r =
              ([], Inl (Exn UnicodeEncodeError
                          ([39] @ u ''gbk'' @ [39] @ u '' codec can'' @ [39]
                           @ u ''t encode character '' @ [39, 92] @ u ''U0001f916'' @ [39]
                           @ u '' in position 2: illegal multibyte sequence'')))"
    using n by (simp add: print_stdout_def) (simp add: example_env_gbk_def)
  have "(if strip [] \<noteq> [] then loads_rejecting (strip []) else Inr (Mapping Map.empty))
          = Inr (Mapping Map.empty)"
    by (simp add: strip_Nil)
  from script_decoded [where loads = loads_rejecting and stdin_text = "[]", OF i this]
  show ?thesis
    by (simp add: call_handler_def h pr report_failure_def isinstance_def)
qed

text \<open>
  What the decoder accepts decides the run, not what JSON is: Python's decoder also
  accepts \<open>NaN\<close>, \<open>Infinity\<close> and \<open>-Infinity\<close>, which are no JSON. When it returns a
  mapping, the run is that of \<open>handler\<close> on it; when it returns another value, line 4
  raises and the run ends with the failure text and exit code 1.
\<close>

lemma accepted_mapping_run:
  assumes "psutil_installed e" and "strip stdin_text \<noteq> []"
    and "loads (strip stdin_text) = Inr (Mapping m)"
    and "handler e m = Inr r"
    and "list_all (stdout_encodes e) r" and "stdout_encodes e 10"
  shows "script loads e stdin_text = \<lparr>stdout = r @ [10], stderr = [], exit_code = 0\<rparr>"
proof -
  have "(if strip stdin_text \<noteq> [] then loads (strip stdin_text) else Inr (Mapping Map.empty))
          = Inr (Mapping m)"
    using assms(2,3) by simp
  from script_decoded [where loads = loads and stdin_text = stdin_text, OF assms(1) this]
  show ?thesis
    by (simp add: call_handler_def assms(4) print_stdout_ok [OF assms(5,6)])
qed

lemma not_mapping_run:
  assumes "psutil_installed e" and "strip stdin_text \<noteq> []"
    and "loads (strip stdin_text) = Inr (NotMapping t)"
  shows "script loads e stdin_text =
           \<lparr>stdout = [],
            stderr = [Printed (failure_prefix @ [39] @ type_name t @ [39]
                               @ u '' object has no attribute '' @ [39] @ u ''get'' @ [39]
                               @ [10])],
            exit_code = 1\<rparr>"
proof -
  have "(if strip stdin_text \<noteq> [] then loads (strip stdin_text) else Inr (Mapping Map.empty))
          = Inr (NotMapping t)"
    using assms(2,3) by simp
  from script_decoded [where loads = loads and stdin_text = stdin_text, OF assms(1) this]
  show ?thesis
    by (simp add: call_handler_def report_failure_def isinstance_def)
qed

lemma nan_document_run:
  "script loads_nan_document example_env nan_document =
     \<lparr>stdout =
        (title_block
         @ env_section (u ''linux 64bit'') (u ''v20.11.0'')
             (memory_status (virtual_memory example_env)) (u ''2026-11-04 Wednesday'')
         @ capabilities_block @ workflow_block
         @ (u ''## '' @ [0x1F4C2] @ u '' '' @ [0x5F53, 0x524D, 0x5DE5, 0x4F5C, 0x533A, 0x6587, 0x4EF6, 10]
            @ (u ''- '' @ [0x65E0, 10]) @ [10])
         @ experience_block
         @ (u ''## '' @ [0x1F3AF] @ u '' '' @ [0x5F85, 0x529E, 0x4E8B, 0x9879, 10]
            @ (u ''- '' @ [0x65E0, 10]))
         @ footer) @ [10],
      stderr = [], exit_code = 0\<rparr>"
proof -
  have i: "psutil_installed example_env"
    by (simp add: example_env_def)
  have s: "strip nan_document = nan_document"
    by (simp add: strip_def isspace_def nan_document_def u_def)
  have n: "strip nan_document \<noteq> []"
    unfolding s by (simp add: nan_document_def u_def)
  have l: "loads_nan_document (strip nan_document) = Inr (Mapping Map.empty)"
    unfolding s by (simp add: loads_nan_document_def)
  show ?thesis
    by (rule accepted_mapping_run
              [where loads = loads_nan_document and stdin_text = nan_document,
               OF i n l example_empty_report example_empty_report_encodes
                 example_line_feed_encodes])
qed

text \<open>
  C7, as amended. When standard input, stripped of the white space at both ends, is
  not empty and the decoder rejects it, that is, raises, the process exits with code 1,
  writes nothing to standard output, and standard error receives a traceback; with
  psutil there, it is the traceback of the decoder's exception, which line 84 lets
  escape.
\<close>

theorem invalid_json_run:
  assumes "strip stdin_text \<noteq> []" and "loads (strip stdin_text) = Inl err"
  shows "exit_code (script loads e stdin_text) = 1
         \<and> stdout (script loads e stdin_text) = []
         \<and> (\<exists>x. stderr (script loads e stdin_text) = [Traceback x])
         \<and> (psutil_installed e \<longrightarrow> script loads e stdin_text = uncaught err)"
  using assms
  by (cases "psutil_installed e")
     (simp_all add: script_def main_block_def import_psutil_def uncaught_def)

theorem invalid_json_run_witness:
  "strip (u '' {oops'') \<noteq> []
   \<and> loads_rejecting (strip (u '' {oops'')) = Inl (Exn JSONDecodeError (u ''Expecting value''))
   \<and> exit_code (script loads_rejecting example_env (u '' {oops'')) = 1
   \<and> stdout (script loads_rejecting example_env (u '' {oops'')) = []
   \<and> (\<exists>x. stderr (script loads_rejecting example_env (u '' {oops'')) = [Traceback x])
   \<and> psutil_installed example_env
   \<and> script loads_rejecting example_env (u '' {oops'') =
       uncaught (Exn JSONDecodeError (u ''Expecting value''))"
proof -
  have i: "psutil_installed example_env"
    by (simp add: example_env_def)
  have a: "strip (u '' {oops'') \<noteq> []"
    by (simp add: strip_def isspace_def u_def)
  have b: "loads_rejecting (strip (u '' {oops'')) = Inl (Exn JSONDecodeError (u ''Expecting value''))"
    by (simp add: loads_rejecting_def)
  from invalid_json_run
         [where loads = loads_rejecting and stdin_text = "u '' {oops''" and e = example_env,
          OF a b]
       a b i
  show ?thesis by blast
qed

text \<open>
  C7, as stated, fails: a single space is not empty and no JSON document, yet the run
  exits with code 0 and writes nothing to standard error, because the text is stripped
  before it is tested for emptiness and the decoder is never called.
\<close>

theorem invalid_json_counterexample:
  "[32] \<noteq> ([] :: pystr)
   \<and> loads_rejecting [32] = Inl (Exn JSONDecodeError (u ''Expecting value''))
   \<and> exit_code (script loads_rejecting example_env [32]) = 0
   \<and> stderr (script loads_rejecting example_env [32]) = []"
proof -
  have s: "strip [32] = []"
    by (simp add: strip_def isspace_def)
  have i: "psutil_installed example_env"
    by (simp add: example_env_def)
  have "script loads_rejecting example_env [32] =
          \<lparr>stdout =
             (title_block
              @ env_section (u ''linux 64bit'') (u ''v20.11.0'')
                  (memory_status (virtual_memory example_env)) (u ''2026-11-04 Wednesday'')
              @ capabilities_block @ workflow_block
              @ (u ''## '' @ [0x1F4C2] @ u '' '' @ [0x5F53, 0x524D, 0x5DE5, 0x4F5C, 0x533A, 0x6587, 0x4EF6, 10]
                 @ (u ''- '' @ [0x65E0, 10]) @ [10])
              @ experience_block
              @ (u ''## '' @ [0x1F3AF] @ u '' '' @ [0x5F85, 0x529E, 0x4E8B, 0x9879, 10]
                 @ (u ''- '' @ [0x65E0, 10]))
              @ footer) @ [10],
           stderr = [], exit_code = 0\<rparr>"
    by (rule script_report
              [OF i s example_empty_report example_empty_report_encodes
                 example_line_feed_encodes])
  then show ?thesis
    by (simp add: loads_rejecting_def)
qed

section \<open>The workspace-files section\<close>

lemma split_lines_line:
  assumes "10 \<notin> set a"
  shows "split_lines (a @ 10 # rest) = a # split_lines rest"
  using assms by (induction a) simp_all

lemma file_bullet_one_line: "10 \<notin> set file \<Longrightarrow> 10 \<notin> set (file_bullet file)"
  by (simp add: file_bullet_def u_def)

lemma is_bullet_file_bullet: "is_bullet (file_bullet file)"
  by (simp add: is_bullet_def file_bullet_def u_def)

lemma split_lines_bullets:
  assumes "\<forall>file\<in>set files. 10 \<notin> set file"
  shows "split_lines (concat (map (\<lambda>file. file_bullet file @ [10]) files) @ rest) =
           map file_bullet files @ split_lines rest"
  using assms
proof (induction files)
  case Nil
  then show ?case by simp
next
  case (Cons f fs)
  then have "10 \<notin> set (file_bullet f)"
    by (simp add: file_bullet_one_line)
  then show ?case
    using Cons by (simp add: split_lines_line)
qed

lemma files_heading_line:
  "\<exists>h. files_heading = h @ [10] \<and> 10 \<notin> set h \<and> \<not> is_bullet h"
proof -
  have "files_heading =
          (u ''## '' @ [0x1F4C2] @ u '' '' @ [0x5F53, 0x524D, 0x5DE5, 0x4F5C, 0x533A, 0x6587, 0x4EF6]) @ [10]"
    by (simp add: files_heading_def)
  moreover have "10 \<notin> set (u ''## '' @ [0x1F4C2] @ u '' '' @ [0x5F53, 0x524D, 0x5DE5, 0x4F5C, 0x533A, 0x6587, 0x4EF6])"
    by (simp add: u_def)
  moreover have "\<not> is_bullet (u ''## '' @ [0x1F4C2] @ u '' '' @ [0x5F53, 0x524D, 0x5DE5, 0x4F5C, 0x533A, 0x6587, 0x4EF6])"
    by (simp add: is_bullet_def u_def)
  ultimately show ?thesis by blast
qed

lemma bullet_lines_files_section:
  assumes "files \<noteq> []" and "\<forall>file\<in>set files. 10 \<notin> set file"
  shows "bullet_lines (files_section files) = map file_bullet files"
proof -
  obtain h where h: "files_heading = h @ [10]" "10 \<notin> set h" "\<not> is_bullet h"
    using files_heading_line by blast
  have "split_lines (files_section files) =
          h # split_lines (concat (map (\<lambda>file. file_bullet file @ [10]) files) @ [10])"
    using assms(1) h(2) by (simp add: files_section_def h(1) split_lines_line)
  also have "\<dots> = h # map file_bullet files @ [[], []]"
    using assms(2) by (simp add: split_lines_bullets)
  finally have "split_lines (files_section files) = h # map file_bullet files @ [[], []]" .
  moreover have "filter is_bullet (map file_bullet files) = map file_bullet files"
    by (simp add: is_bullet_file_bullet)
  moreover have "\<not> is_bullet []"
    by (simp add: is_bullet_def u_def)
  ultimately show ?thesis
    using h(3) by (simp add: bullet_lines_def)
qed

text \<open>
  C5, as amended. For every non-empty list of \<open>N\<close> paths none of which contains a line
  feed, the workspace-files section of the report has exactly \<open>N\<close> bullet lines, and
  they are the paths in input order, each between backquotes after the hyphen and the
  space.
\<close>

theorem workspace_file_bullets:
  assumes "probe_node_version (node_probe e) = Inr v"
    and "args (u ''current_workspace_files'') = Some files"
    and "files \<noteq> []"
    and "\<forall>file\<in>set files. 10 \<notin> set file"
  shows "handler e args =
           Inr (title_block
                @ env_section (platform_system_lower e @ u '' '' @ platform_architecture e) v
                    (memory_status (virtual_memory e)) (now_strftime e)
                @ capabilities_block @ workflow_block
                @ files_section files
                @ experience_block
                @ tasks_section (dict_get args (u ''pending_tasks'') [])
                @ footer)
         \<and> bullet_lines (files_section files) = map file_bullet files
         \<and> length (bullet_lines (files_section files)) = length files"
proof -
  have "dict_get args (u ''current_workspace_files'') [] = files"
    using assms(2) by (simp add: dict_get_def)
  then have "handler e args =
           Inr (title_block
                @ env_section (platform_system_lower e @ u '' '' @ platform_architecture e) v
                    (memory_status (virtual_memory e)) (now_strftime e)
                @ capabilities_block @ workflow_block
                @ files_section files
                @ experience_block
                @ tasks_section (dict_get args (u ''pending_tasks'') [])
                @ footer)"
    by (simp add: handler_report [OF assms(1)])
  moreover have "bullet_lines (files_section files) = map file_bullet files"
    using assms(3,4) by (rule bullet_lines_files_section)
  ultimately show ?thesis by simp
qed

theorem workspace_file_bullets_witness:
  "probe_node_version (node_probe example_env) = Inr (u ''v20.11.0'')
   \<and> [u ''current_workspace_files'' \<mapsto> [u ''main.js'', u ''README.md'']]
         (u ''current_workspace_files'') = Some [u ''main.js'', u ''README.md'']
   \<and> [u ''main.js'', u ''README.md''] \<noteq> []
   \<and> 10 \<notin> set (u ''main.js'') \<and> 10 \<notin> set (u ''README.md'')
   \<and> handler example_env [u ''current_workspace_files'' \<mapsto> [u ''main.js'', u ''README.md'']] =
           Inr (title_block
                @ env_section (platform_system_lower example_env @ u '' ''
                               @ platform_architecture example_env) (u ''v20.11.0'')
                    (memory_status (virtual_memory example_env)) (now_strftime example_env)
                @ capabilities_block @ workflow_block
                @ files_section [u ''main.js'', u ''README.md'']
                @ experience_block
                @ tasks_section
                    (dict_get [u ''current_workspace_files'' \<mapsto> [u ''main.js'', u ''README.md'']]
                       (u ''pending_tasks'') [])
                @ footer)
   \<and> bullet_lines (files_section [u ''main.js'', u ''README.md'']) =
       [u ''- `main.js`'', u ''- `README.md`'']
   \<and> length (bullet_lines (files_section [u ''main.js'', u ''README.md''])) = 2"
proof -
  let ?files = "[u ''main.js'', u ''README.md'']"
  have p: "probe_node_version (node_probe example_env) = Inr (u ''v20.11.0'')"
    by (rule example_probe)
  have a: "[u ''current_workspace_files'' \<mapsto> ?files] (u ''current_workspace_files'') = Some ?files"
    by simp
  have n: "?files \<noteq> []"
    by simp
  have l: "10 \<notin> set (u ''main.js'')" "10 \<notin> set (u ''README.md'')"
    by (simp_all add: u_def)
  then have l': "\<forall>file\<in>set ?files. 10 \<notin> set file"
    by simp
  have m: "map file_bullet ?files = [u ''- `main.js`'', u ''- `README.md`'']"
    by (simp add: file_bullet_def u_def)
  from workspace_file_bullets
         [where e = example_env and args = "[u ''current_workspace_files'' \<mapsto> ?files]"
            and files = ?files, OF p a n l']
       p a n l
  show ?thesis unfolding m by simp
qed

text \<open>
  C5, as stated, fails: for the single path made of \<open>a\<close>, a line feed and \<open>- b\<close>, the
  section has two bullet lines, and neither reproduces the path.
\<close>

theorem workspace_file_bullets_counterexample:
  "[two_line_path] \<noteq> []
   \<and> handler example_env [u ''current_workspace_files'' \<mapsto> [two_line_path]] =
           Inr (title_block
                @ env_section (u ''linux 64bit'') (u ''v20.11.0'')
                    (memory_status (virtual_memory example_env)) (u ''2026-11-04 Wednesday'')
                @ capabilities_block @ workflow_block
                @ files_section [two_line_path]
                @ experience_block
                @ tasks_section []
                @ footer)
   \<and> bullet_lines (files_section [two_line_path]) = [u ''- `a'', u ''- b`'']
   \<and> bullet_lines (files_section [two_line_path]) \<noteq> map file_bullet [two_line_path]
   \<and> length (bullet_lines (files_section [two_line_path])) \<noteq> length [two_line_path]"
proof -
  have plat: "platform_system_lower example_env @ u '' '' @ platform_architecture example_env
              = u ''linux 64bit''"
    by (simp add: example_env_def u_def)
  have t: "now_strftime example_env = u ''2026-11-04 Wednesday''"
    by (simp add: example_env_def)
  have k: "u ''pending_tasks'' \<noteq> u ''current_workspace_files''"
    by (simp add: u_def)
  have h: "handler example_env [u ''current_workspace_files'' \<mapsto> [two_line_path]] =
           Inr (title_block
                @ env_section (u ''linux 64bit'') (u ''v20.11.0'')
                    (memory_status (virtual_memory example_env)) (u ''2026-11-04 Wednesday'')
                @ capabilities_block @ workflow_block
                @ files_section [two_line_path]
                @ experience_block
                @ tasks_section []
                @ footer)"
    using k by (simp add: handler_report [OF example_probe] plat t dict_get_def)
  have b: "bullet_lines (files_section [two_line_path]) = [u ''- `a'', u ''- b`'']"
    by (simp add: bullet_lines_def files_section_def files_heading_def file_bullet_def
        two_line_path_def is_bullet_def u_def)
  show ?thesis
    unfolding b using h by (simp add: file_bullet_def two_line_path_def u_def)
qed

section \<open>The input objects\<close>

text \<open>
  Each \<open>x.get(key, [])\<close> creates one list object and changes no object that was there
  before; so does the whole call.
\<close>

lemma get_or_new_list_frame:
  assumes "get_or_new_list s x key = (s', r)"
  shows "next_addr s \<le> next_addr s' \<and> (\<forall>a<next_addr s. objs s' a = objs s a)"
  using assms
  by (auto simp: get_or_new_list_def new_list_def split: obj.splits)

lemma handler_st_frame:
  assumes "handler_st e s x = (s', r)"
  shows "next_addr s \<le> next_addr s' \<and> (\<forall>a<next_addr s. objs s' a = objs s a)"
proof -
  obtain s1 r1 where g1: "get_or_new_list s x (u ''current_workspace_files'') = (s1, r1)"
    by (cases "get_or_new_list s x (u ''current_workspace_files'')")
  note f1 = get_or_new_list_frame [OF g1]
  show ?thesis
  proof (cases r1)
    case (Inl err)
    with assms g1 have "s' = s1" by (simp add: handler_st_def)
    with f1 show ?thesis by simp
  next
    case (Inr cwf)
    obtain s2 r2 where g2: "get_or_new_list s1 x (u ''pending_tasks'') = (s2, r2)"
      by (cases "get_or_new_list s1 x (u ''pending_tasks'')")
    note f2 = get_or_new_list_frame [OF g2]
    have "s' = s2"
      using assms g1 g2 Inr by (cases r2) (simp_all add: handler_st_def)
    with f1 f2 show ?thesis by auto
  qed
qed

lemma get_or_new_list_dict:
  assumes "objs s x = DictObj items"
  shows "get_or_new_list s x key =
           (s\<lparr>objs := (objs s)(next_addr s := ListObj []), next_addr := Suc (next_addr s)\<rparr>,
            Inr (case map_of items key of None \<Rightarrow> next_addr s | Some v \<Rightarrow> v))"
  using assms by (simp add: get_or_new_list_def new_list_def)

lemma read_value:
  assumes "\<forall>v\<in>snd ` set items. v < next_addr s"
    and "\<forall>a<next_addr s. objs s' a = objs s a"
    and "objs s' dflt = ListObj []"
  shows "iterate (objs s' (case map_of items key of None \<Rightarrow> dflt | Some v \<Rightarrow> v)) =
           dict_get (args_of s items) key []"
proof (cases "map_of items key")
  case None
  then show ?thesis
    using assms(3) by (simp add: dict_get_def args_of_def)
next
  case (Some v)
  then have "v \<in> snd ` set items"
    by (force dest: map_of_SomeD)
  then have "v < next_addr s"
    using assms(1) by blast
  then have "objs s' v = objs s v"
    using assms(2) by blast
  then show ?thesis
    using Some by (simp add: dict_get_def args_of_def)
qed

lemma handler_st_result:
  assumes "objs s x = DictObj items"
    and "x < next_addr s"
    and "\<forall>v\<in>snd ` set items. v < next_addr s"
  shows "snd (handler_st e s x) = handler e (args_of s items)"
proof -
  define s1 where
    "s1 = s\<lparr>objs := (objs s)(next_addr s := ListObj []), next_addr := Suc (next_addr s)\<rparr>"
  define s2 where
    "s2 = s1\<lparr>objs := (objs s1)(next_addr s1 := ListObj []), next_addr := Suc (next_addr s1)\<rparr>"
  define cwf where
    "cwf = (case map_of items (u ''current_workspace_files'') of
              None \<Rightarrow> next_addr s | Some v \<Rightarrow> v)"
  define pt where
    "pt = (case map_of items (u ''pending_tasks'') of None \<Rightarrow> next_addr s1 | Some v \<Rightarrow> v)"
  have g1: "get_or_new_list s x (u ''current_workspace_files'') = (s1, Inr cwf)"
    unfolding s1_def cwf_def by (rule get_or_new_list_dict [OF assms(1)])
  have x1: "objs s1 x = DictObj items"
    using assms(1,2) by (simp add: s1_def)
  have g2: "get_or_new_list s1 x (u ''pending_tasks'') = (s2, Inr pt)"
    unfolding s2_def pt_def by (rule get_or_new_list_dict [OF x1])
  have h: "handler_st e s x = (s2, build_report e (iterate (objs s2 cwf)) (iterate (objs s2 pt)))"
    by (simp add: handler_st_def g1 g2)
  have frame: "\<forall>a<next_addr s. objs s2 a = objs s a"
    by (simp add: s2_def s1_def)
  have d1: "objs s2 (next_addr s) = ListObj []"
    by (simp add: s2_def s1_def)
  have d2: "objs s2 (next_addr s1) = ListObj []"
    by (simp add: s2_def)
  have c: "iterate (objs s2 cwf) = dict_get (args_of s items) (u ''current_workspace_files'') []"
    unfolding cwf_def by (rule read_value [OF assms(3) frame d1])
  have p: "iterate (objs s2 pt) = dict_get (args_of s items) (u ''pending_tasks'') []"
    unfolding pt_def by (rule read_value [OF assms(3) frame d2])
  show ?thesis
    by (simp add: h c p handler_def Let_def)
qed

text \<open>
  C9. \<open>handler\<close> does not change its input: for every store in which the argument is
  a mapping whose values are objects of the store, after the call the mapping object is
  the same, every value object is the same, the mapping stands for the same keys and
  lists, and so does every other object that existed before the call; what the call
  returns is \<open>handler\<close> of that mapping.
\<close>

theorem handler_keeps_input:
  assumes "objs s x = DictObj items"
    and "x < next_addr s"
    and "\<forall>v\<in>snd ` set items. v < next_addr s"
  shows "objs (fst (handler_st e s x)) x = DictObj items
         \<and> (\<forall>v\<in>snd ` set items. objs (fst (handler_st e s x)) v = objs s v)
         \<and> args_of (fst (handler_st e s x)) items = args_of s items
         \<and> (\<forall>a<next_addr s. objs (fst (handler_st e s x)) a = objs s a)
         \<and> snd (handler_st e s x) = handler e (args_of s items)"
proof -
  have f: "\<forall>a<next_addr s. objs (fst (handler_st e s x)) a = objs s a"
    using handler_st_frame [of e s x "fst (handler_st e s x)" "snd (handler_st e s x)"]
    by simp
  have v: "\<forall>v\<in>snd ` set items. objs (fst (handler_st e s x)) v = objs s v"
    using f assms(3) by blast
  have "args_of (fst (handler_st e s x)) items key = args_of s items key" for key
  proof (cases "map_of items key")
    case None
    then show ?thesis by (simp add: args_of_def)
  next
    case (Some w)
    then have "w \<in> snd ` set items"
      by (force dest: map_of_SomeD)
    with v have "objs (fst (handler_st e s x)) w = objs s w"
      by blast
    with Some show ?thesis by (simp add: args_of_def)
  qed
  then have a: "args_of (fst (handler_st e s x)) items = args_of s items"
    by (rule ext)
  from f assms(1,2) have "objs (fst (handler_st e s x)) x = DictObj items"
    by simp
  with v a f handler_st_result [OF assms] show ?thesis
    by blast
qed

theorem handler_keeps_input_witness:
  "objs example_store 0 = DictObj [(u ''current_workspace_files'', 1)]
   \<and> (0 :: addr) < next_addr example_store
   \<and> (1 :: addr) < next_addr example_store
   \<and> objs (fst (handler_st example_env example_store 0)) 0 =
       DictObj [(u ''current_workspace_files'', 1)]
   \<and> objs (fst (handler_st example_env example_store 0)) 1 =
       ListObj [u ''main.js'', u ''README.md'']
   \<and> snd (handler_st example_env example_store 0) =
       handler example_env (args_of example_store [(u ''current_workspace_files'', 1)])"
proof -
  have a: "objs example_store 0 = DictObj [(u ''current_workspace_files'', 1)]"
    by (simp add: example_store_def)
  have b: "(0 :: addr) < next_addr example_store" "(1 :: addr) < next_addr example_store"
    by (simp_all add: example_store_def)
  have c: "\<forall>v\<in>snd ` set [(u ''current_workspace_files'', 1 :: addr)]. v < next_addr example_store"
    by (simp add: example_store_def)
  have d: "objs example_store 1 = ListObj [u ''main.js'', u ''README.md'']"
    by (simp add: example_store_def)
  from handler_keeps_input [OF a b(1) c, of example_env] a b d show ?thesis
    by simp
qed

end
